theory Spec2Isabelle
  imports Complex_Main
begin

section \<open>Python values used by av_writer.py\<close>

text \<open>
  Wall-clock timestamps are Python floats in the source; they are embedded as rationals,
  so the arithmetic below is the exact arithmetic that the floating-point operations
  approximate. Presentation timestamps are Python integers (unbounded), embedded as
  \<open>int\<close>. The exceptions the module can raise are values of \<open>error\<close>.
\<close>

datatype error =
    ValueError string
  | AttributeError string
  | ZeroDivisionError
  | KeyError string
  | TypeError string
  | IndexError string

text \<open>
  \<open>last_video_pts\<close> and \<open>last_audio_pts\<close> start as \<open>float("-inf")\<close> and hold an integer
  afterwards.
\<close>

datatype ext_int = NegInf | Fin int

text \<open>\<open>int(x)\<close> on a float truncates towards zero.\<close>

definition py_int :: "rat \<Rightarrow> int" where
  "py_int x = (if 0 \<le> x then \<lfloor>x\<rfloor> else \<lceil>x\<rceil>)"

text \<open>
  \<open>max(pts, last + 1)\<close>: \<open>float("-inf") + 1\<close> is \<open>float("-inf")\<close>, which is below every
  integer, so the candidate wins; otherwise it is the maximum of two integers.
\<close>

fun next_pts :: "int \<Rightarrow> ext_int \<Rightarrow> int" where
  "next_pts candidate NegInf = candidate"
| "next_pts candidate (Fin l) = max candidate (l + 1)"


section \<open>Frames, packets and the log\<close>

datatype stream_id = VideoStream | AudioStream

text \<open>
  A packet: the stream it belongs to, \<open>pts\<close> and \<open>dts\<close> (\<open>None\<close> until assigned),
  \<open>duration\<close> and the payload bytes.
\<close>

record packet =
  pkt_stream :: stream_id
  pkt_pts :: "int option"
  pkt_dts :: "int option"
  pkt_duration :: int
  pkt_payload :: "nat list"

record frame =
  width :: int
  height :: int
  timestamp :: rat
  index :: int
  yuv_buffer :: "nat list option"
  img :: "nat list"
  jpeg_buffer :: "nat list"

text \<open>The calls to \<open>logger\<close>, one constructor per call site, in the order of the file.\<close>

datatype log_msg =
    Error_failed_to_extract_pts
  | Warning_unsupported_extension string
  | Debug_opened string
  | Warning_container_closed_already
  | Debug_skipping_frame_before_sync
  | Warning_more_than_one_packet
  | Warning_encoding_failed int
  | Warning_close_multiple_times
  | Debug_could_not_mux_audio
  | Debug_seeking_audio rat rat

section \<open>write_timestamps\<close>

text \<open>
  The files \<open>write_timestamps\<close> leaves behind: \<open>np.save\<close> of the ledger, and
  \<open>np.savetxt\<close> of the ledger stacked with the PTS values read back from the exported
  video. The video read back (\<open>Video(file_loc)\<close>) is external: it is \<open>None\<close> when
  \<open>is_valid\<close> is false and its \<open>pts\<close> otherwise. \<open>np.vstack\<close> raises \<open>ValueError\<close> when the
  two rows differ in length.
\<close>

datatype export = Npy_file "rat list" | Csv_file "(rat \<times> int) list"

definition write_timestamps ::
  "int list option \<Rightarrow> rat list \<Rightarrow> string \<Rightarrow> error option \<times> export list \<times> log_msg list" where
  "write_timestamps output_video ts output_format =
     (if output_format \<notin> set [''npy'', ''csv'', ''all'']
      then (Some (ValueError ''Unknown timestamp output format''), [], [])
      else
        let saved = (if output_format \<in> set [''npy'', ''all''] then [Npy_file ts] else [])
        in if output_format \<in> set [''csv'', ''all'']
           then (case output_video of
                   None \<Rightarrow> (None, saved, [Error_failed_to_extract_pts])
                 | Some video_pts \<Rightarrow>
                     if length video_pts = length ts
                     then (None, saved @ [Csv_file (zip ts video_pts)], [])
                     else (Some (ValueError ''vstack''), saved, []))
           else (None, saved, []))"

section \<open>AV_Writer\<close>

text \<open>
  The abstract methods and the encoder a subclass brings: \<open>on_first_frame\<close>,
  \<open>encode_frame\<close> (a generator: the packets it yields, the exception that ends it if it
  raises, and the subclass state afterwards) and \<open>video_stream.encode(None)\<close>, over a
  subclass state \<open>'e\<close>.
\<close>

record 'e codec =
  supported_extensions :: "string list"
  codec_name :: string
  on_first_frame :: "frame \<Rightarrow> 'e \<Rightarrow> 'e"
  encode_frame :: "'e \<Rightarrow> frame \<Rightarrow> int \<Rightarrow> packet list \<times> error option \<times> 'e"
  encode_None :: "'e \<Rightarrow> packet list \<times> 'e"

text \<open>
  The writer's attributes, with the container's observable state written out: the packets
  passed to \<open>container.mux\<close> in order, the number of \<open>container.close()\<close> calls, the
  number of flushes \<open>video_stream.encode(None)\<close>, the files written by
  \<open>write_timestamps\<close>, and the log.
\<close>

record 'e av_writer =
  timestamps :: "rat list"
  start_time :: rat
  last_video_pts :: ext_int
  time_base :: rat
  output_file_path :: string
  configured :: bool
  closed_flag :: bool
  stream_height :: "int option"
  stream_width :: "int option"
  muxed :: "packet list"
  container_closes :: nat
  flushes :: nat
  exported_video :: "int list option"
  exports :: "export list"
  log_lines :: "log_msg list"
  enc :: 'e

definition logger :: "log_msg \<Rightarrow> 'e av_writer \<Rightarrow> 'e av_writer" where
  "logger m w = w\<lparr>log_lines := log_lines w @ [m]\<rparr>"

text \<open>
  \<open>__init__\<close>; \<open>ext\<close> is the extension \<open>os.path.splitext\<close> finds in the file name,
  \<open>e0\<close> the subclass state at construction and \<open>video\<close> what \<open>Video(output_file_path)\<close>
  reads back once the container is closed.
\<close>

definition AV_Writer_init ::
  "'e codec \<Rightarrow> string \<Rightarrow> string \<Rightarrow> rat \<Rightarrow> 'e \<Rightarrow> int list option \<Rightarrow> 'e av_writer" where
  "AV_Writer_init c path ext start_time_synced e0 video =
     \<lparr>timestamps = [],
      start_time = start_time_synced,
      last_video_pts = NegInf,
      time_base = 1 / 65535,
      output_file_path = path,
      configured = False,
      closed_flag = False,
      stream_height = None,
      stream_width = None,
      muxed = [],
      container_closes = 0,
      flushes = 0,
      exported_video = video,
      exports = [],
      log_lines = (if ext \<notin> set (supported_extensions c)
                   then [Warning_unsupported_extension ext] else []) @ [Debug_opened path],
      enc = e0\<rparr>"

text \<open>\<open>close\<close>: a second call only warns.\<close>

definition close ::
  "'e codec \<Rightarrow> 'e av_writer \<Rightarrow> string option \<Rightarrow> (error \<times> 'e av_writer) + 'e av_writer" where
  "close c w timestamp_export_format =
     (if closed_flag w then Inr (logger Warning_close_multiple_times w)
      else
        let w1 = (if configured w
                  then (case encode_None c (enc w) of
                          (pkts, e') \<Rightarrow> w\<lparr>muxed := muxed w @ pkts,
                                           flushes := flushes w + 1, enc := e'\<rparr>)
                  else w);
            w2 = w1\<lparr>container_closes := container_closes w1 + 1, closed_flag := True\<rparr>
        in case timestamp_export_format of
             None \<Rightarrow> Inr w2
           | Some fmt \<Rightarrow>
               if configured w2
               then (case write_timestamps (exported_video w2) (timestamps w2) fmt of
                       (err, files, msgs) \<Rightarrow>
                         let w3 = w2\<lparr>exports := exports w2 @ files,
                                      log_lines := log_lines w2 @ msgs\<rparr>
                         in (case err of None \<Rightarrow> Inr w3 | Some e \<Rightarrow> Inl (e, w3)))
               else Inr w2)"

text \<open>\<open>release\<close> is \<open>close()\<close> with the default export format.\<close>

definition release :: "'e codec \<Rightarrow> 'e av_writer \<Rightarrow> (error \<times> 'e av_writer) + 'e av_writer" where
  "release c w = close c w (Some ''npy'')"

text \<open>The one-time configuration on the first frame (lines 147-151).\<close>

definition configure :: "'e codec \<Rightarrow> 'e av_writer \<Rightarrow> frame \<Rightarrow> 'e av_writer" where
  "configure c w input_frame =
     (if \<not> configured w
      then w\<lparr>stream_height := Some (height input_frame),
             stream_width := Some (width input_frame),
             configured := True,
             enc := on_first_frame c input_frame (enc w)\<rparr>
      else w)"

text \<open>The PTS given to a frame (lines 171-174).\<close>

definition assigned_pts :: "'e av_writer \<Rightarrow> frame \<Rightarrow> int" where
  "assigned_pts w input_frame =
     next_pts (py_int ((timestamp input_frame - start_time w) / time_base w))
              (last_video_pts w)"

text \<open>
  The loop over the packets of \<open>encode_frame\<close> (lines 179-187): every packet is muxed;
  the flag records whether a packet of the video stream was among them.
\<close>

fun mux_packets :: "packet list \<Rightarrow> bool \<Rightarrow> 'e av_writer \<Rightarrow> bool \<times> 'e av_writer" where
  "mux_packets [] video_packed_encoded w = (video_packed_encoded, w)"
| "mux_packets (p # ps) video_packed_encoded w =
     (let is_video = (pkt_stream p = VideoStream);
          w1 = (if is_video \<and> video_packed_encoded
                then logger Warning_more_than_one_packet w else w)
      in mux_packets ps (video_packed_encoded \<or> is_video) (w1\<lparr>muxed := muxed w1 @ [p]\<rparr>))"

definition write_video_frame ::
  "'e codec \<Rightarrow> 'e av_writer \<Rightarrow> frame \<Rightarrow> (error \<times> 'e av_writer) + 'e av_writer" where
  "write_video_frame c w input_frame =
     (if closed_flag w then Inr (logger Warning_container_closed_already w)
      else
        let w1 = configure c w input_frame;
            ts = timestamp input_frame
        in if ts < start_time w1 then Inr (logger Debug_skipping_frame_before_sync w1)
           else if timestamps w1 \<noteq> [] \<and> ts < last (timestamps w1)
           then (case release c w1 of
                   Inl (e, w2) \<Rightarrow> Inl (e, w2)
                 | Inr w2 \<Rightarrow> Inl (ValueError ''Non-monotonic timestamps!'', w2))
           else
             let new_pts = assigned_pts w1 input_frame
             in case encode_frame c (enc w1) input_frame new_pts of
                  (pkts, err, e') \<Rightarrow>
                    (case mux_packets pkts False (w1\<lparr>enc := e'\<rparr>) of
                       (video_packed_encoded, w2) \<Rightarrow>
                         (case err of
                            Some e \<Rightarrow> Inl (e, w2)
                          | None \<Rightarrow>
                              if \<not> video_packed_encoded
                              then Inr (logger (Warning_encoding_failed (index input_frame)) w2)
                              else Inr (w2\<lparr>last_video_pts := Fin new_pts,
                                          timestamps := timestamps w2 @ [ts]\<rparr>))))"

section \<open>JPEG_Writer and MPEG_Writer\<close>

text \<open>
  \<open>JPEG_Writer\<close>: \<open>on_first_frame\<close> sets \<open>video_stream.pix_fmt\<close>; \<open>encode_frame\<close> wraps the
  frame's JPEG buffer in one packet of the video stream with \<open>pts = dts =\<close> the given PTS.
  What \<open>video_stream.encode(None)\<close> returns is the library's: \<open>stream_flush\<close>.
\<close>

record jpeg_state =
  pix_fmt :: "string option"

definition JPEG_Writer :: "(jpeg_state \<Rightarrow> packet list \<times> jpeg_state) \<Rightarrow> jpeg_state codec" where
  "JPEG_Writer stream_flush =
     \<lparr>supported_extensions = [''.mp4''],
      codec_name = ''mjpeg'',
      on_first_frame = (\<lambda>input_frame e. e\<lparr>pix_fmt := Some ''yuvj422p''\<rparr>),
      encode_frame = (\<lambda>e input_frame new_pts.
         ([\<lparr>pkt_stream = VideoStream, pkt_pts = Some new_pts, pkt_dts = Some new_pts,
            pkt_duration = 0, pkt_payload = jpeg_buffer input_frame\<rparr>], None, e)),
      encode_None = stream_flush\<rparr>"

text \<open>
  \<open>MPEG_Writer\<close>: \<open>on_first_frame\<close> allocates \<open>self.frame\<close> with the pixel format the first
  frame asks for; \<open>encode_frame\<close> copies the planes, sets \<open>self.frame.pts\<close> and yields from
  \<open>video_stream.encode(self.frame)\<close>. Copying and encoding are the library's:
  \<open>stream_encode\<close>, over the encoder's state \<open>'v\<close>.
\<close>

record 'v mpeg_state =
  frame_pix_format :: "string option"
  frame_pts :: "int option"
  video_encoder :: 'v

definition MPEG_on_first_frame :: "frame \<Rightarrow> ('v, 'm) mpeg_state_scheme \<Rightarrow> ('v, 'm) mpeg_state_scheme" where
  "MPEG_on_first_frame input_frame e =
     e\<lparr>frame_pix_format :=
          Some (if yuv_buffer input_frame \<noteq> None then ''yuv422p'' else ''bgr24'')\<rparr>"

definition MPEG_encode_frame ::
  "('v \<Rightarrow> frame \<Rightarrow> int \<Rightarrow> packet list \<times> error option \<times> 'v) \<Rightarrow>
   ('v, 'm) mpeg_state_scheme \<Rightarrow> frame \<Rightarrow> int \<Rightarrow>
   packet list \<times> error option \<times> ('v, 'm) mpeg_state_scheme" where
  "MPEG_encode_frame stream_encode e input_frame new_pts =
     (case stream_encode (video_encoder e) input_frame new_pts of
        (pkts, err, v') \<Rightarrow> (pkts, err, e\<lparr>frame_pts := Some new_pts, video_encoder := v'\<rparr>))"

definition MPEG_encode_None ::
  "('v \<Rightarrow> packet list \<times> 'v) \<Rightarrow> ('v, 'm) mpeg_state_scheme \<Rightarrow>
   packet list \<times> ('v, 'm) mpeg_state_scheme" where
  "MPEG_encode_None stream_flush e =
     (case stream_flush (video_encoder e) of (pkts, v') \<Rightarrow> (pkts, e\<lparr>video_encoder := v'\<rparr>))"

definition MPEG_Writer ::
  "('v \<Rightarrow> frame \<Rightarrow> int \<Rightarrow> packet list \<times> error option \<times> 'v) \<Rightarrow> ('v \<Rightarrow> packet list \<times> 'v) \<Rightarrow>
   'v mpeg_state codec" where
  "MPEG_Writer stream_encode stream_flush =
     \<lparr>supported_extensions = [''.mp4'', ''.mov'', ''.mkv''],
      codec_name = ''mpeg4'',
      on_first_frame = MPEG_on_first_frame,
      encode_frame = MPEG_encode_frame stream_encode,
      encode_None = MPEG_encode_None stream_flush\<rparr>"

section \<open>_AudioPacketIterator\<close>

text \<open>
  An audio frame is either decoded from an audio part (an opaque frame, named by a number)
  or a frame of silence built by \<open>_generate_silence_packets\<close>: its number of samples,
  format, layout and sample rate.
\<close>

datatype audio_frame = Decoded nat | Silence int string string int

text \<open>
  The audio export stream: its time base, the codec context's sample rate, frame size,
  format and layout names, the encoder (\<open>stream.encode(frame)\<close>, external) and the truth
  value Python gives a packet in \<open>if packet:\<close>.
\<close>

record audio_stream =
  a_time_base :: rat
  sample_rate :: int
  frame_size :: int
  format_name :: string
  layout_name :: string
  encode :: "audio_frame \<Rightarrow> packet list"
  truth :: "packet \<Rightarrow> bool"

text \<open>An audio part: the frames its container decodes to and its timestamps.\<close>

record audio_part =
  part_frames :: "audio_frame list"
  part_timestamps :: "rat list"

text \<open>
  What stands in the packet position of a pair: \<open>None\<close> (only in the first history
  element), the end marker \<open>Ellipsis\<close>, or a packet.
\<close>

datatype py_packet = PyNone | audio_part_end_marker | Packet packet

text \<open>
  A generator is embedded as the items it yields until it stops, with the exception that
  stops it (\<open>None\<close> when it returns).
\<close>

type_synonym 'a gen = "'a list \<times> error option"

definition yield_then :: "'a list \<Rightarrow> 'a gen \<Rightarrow> 'a gen" where
  "yield_then xs g = (xs @ fst g, snd g)"

definition yield_from :: "'a gen \<Rightarrow> 'a gen \<Rightarrow> 'a gen" where
  "yield_from g k = (case snd g of None \<Rightarrow> yield_then (fst g) k | Some e \<Rightarrow> g)"

definition format_dtypes :: "string \<rightharpoonup> string" where
  "format_dtypes = map_of
     [(''dbl'', ''<f8''), (''dblp'', ''<f8''), (''flt'', ''<f4''), (''fltp'', ''<f4''),
      (''s16'', ''<i2''), (''s16p'', ''<i2''), (''s32'', ''<i4''), (''s32p'', ''<i4''),
      (''u8'', ''u1''), (''u8p'', ''u1'')]"

text \<open>The truthy packets the stream encodes a frame to, each paired with a timestamp.\<close>

definition encode_with_ts :: "audio_stream \<Rightarrow> audio_frame \<Rightarrow> rat \<Rightarrow> (packet \<times> rat) list" where
  "encode_with_ts s fr ts = map (\<lambda>p. (p, ts)) (filter (truth s) (encode s fr))"

text \<open>
  \<open>_generate_silence_packets\<close>. \<open>sample_count\<close> is \<open>int(sample_rate * duration)\<close> and
  \<open>frame_count\<close> is \<open>math.ceil(sample_count / frame_size)\<close>. The loop body, for the frame
  indices left to do: the frame has \<open>min(remaining_count, frame_size)\<close> samples, and the
  timestamp moves on by \<open>1.0 / sample_rate\<close>.
\<close>

definition frame_samples :: "int \<Rightarrow> int \<Rightarrow> nat \<Rightarrow> int" where
  "frame_samples sample_count fsize frame_idx =
     min (sample_count - int frame_idx * fsize) fsize"

fun silence_loop :: "audio_stream \<Rightarrow> int \<Rightarrow> rat \<Rightarrow> nat list \<Rightarrow> (packet \<times> rat) gen" where
  "silence_loop s sample_count frame_timestamp [] = ([], None)"
| "silence_loop s sample_count frame_timestamp (frame_idx # idxs) =
     (let audio_frame = Silence (frame_samples sample_count (frame_size s) frame_idx)
                          (format_name s) (layout_name s) (sample_rate s);
          out = encode_with_ts s audio_frame frame_timestamp
      in if sample_rate s = 0 then (out, Some ZeroDivisionError)
         else yield_then out
                (silence_loop s sample_count (frame_timestamp + 1 / of_int (sample_rate s)) idxs))"

definition generate_silence_packets :: "audio_stream \<Rightarrow> rat \<Rightarrow> rat \<Rightarrow> (packet \<times> rat) gen" where
  "generate_silence_packets s start_ts dur =
     (case format_dtypes (format_name s) of
        None \<Rightarrow> ([], Some (KeyError (format_name s)))
      | Some dtype \<Rightarrow>
          let sample_count = py_int (of_int (sample_rate s) * dur)
          in if frame_size s = 0 then ([], Some ZeroDivisionError)
             else
               let frame_count = \<lceil>of_int sample_count / (of_int (frame_size s) :: rat)\<rceil>
               in silence_loop s sample_count start_ts [0 ..< nat frame_count])"

text \<open>
  \<open>_iterate_audio_packets_with_part_marker\<close>: the packets of every part in order, each
  part followed by \<open>(audio_part_end_marker, 0)\<close>.
\<close>

definition part_packets :: "audio_stream \<Rightarrow> audio_part \<Rightarrow> (py_packet \<times> rat) list" where
  "part_packets s part =
     concat (map (\<lambda>(fr, ts). map (\<lambda>(p, t). (Packet p, t)) (encode_with_ts s fr ts))
                 (zip (part_frames part) (part_timestamps part)))
     @ [(audio_part_end_marker, 0)]"

definition iterate_audio_packets_with_part_marker ::
  "audio_stream \<Rightarrow> audio_part list option \<Rightarrow> (py_packet \<times> rat) list" where
  "iterate_audio_packets_with_part_marker s audio_parts =
     (case audio_parts of None \<Rightarrow> [] | Some parts \<Rightarrow> concat (map (part_packets s) parts))"

text \<open>\<open>_iterate_audio_packets\<close>: the same without the markers.\<close>

fun real_packets :: "(py_packet \<times> rat) list \<Rightarrow> (packet \<times> rat) list" where
  "real_packets [] = []"
| "real_packets ((Packet p, ts) # xs) = (p, ts) # real_packets xs"
| "real_packets (x # xs) = real_packets xs"

definition iterate_audio_packets_plain ::
  "audio_stream \<Rightarrow> audio_part list option \<Rightarrow> (packet \<times> rat) gen" where
  "iterate_audio_packets_plain s audio_parts =
     (real_packets (iterate_audio_packets_with_part_marker s audio_parts), None)"

text \<open>
  \<open>_iterate_audio_packets_filling_gaps\<close>. The history is kept with its last element
  first, so \<open>history.pop()\<close> takes the head and \<open>history.append\<close> conses. The first history
  element is \<open>(None, None)\<close>. \<open>prev_packet.duration\<close> raises \<open>AttributeError\<close> when the
  element popped is \<open>None\<close> or the end marker.
\<close>

type_synonym history = "(py_packet \<times> rat option) list"

definition emit_current ::
  "py_packet \<Rightarrow> rat \<Rightarrow> (packet \<times> rat) list" where
  "emit_current curr_packet curr_ts =
     (case curr_packet of Packet p \<Rightarrow> [(p, curr_ts)] | _ \<Rightarrow> [])"

fun filling_gaps_loop ::
  "audio_stream \<Rightarrow> history \<Rightarrow> (py_packet \<times> rat) list \<Rightarrow> (packet \<times> rat) gen" where
  "filling_gaps_loop s hist [] = ([], None)"
| "filling_gaps_loop s hist ((curr_packet, curr_ts) # rest) =
     (case hist of
        [] \<Rightarrow> ([], Some (IndexError ''pop from empty list''))
      | (prev_packet, prev_ts) # hist1 \<Rightarrow>
          if prev_packet = audio_part_end_marker
          then (case hist1 of
                  [] \<Rightarrow> ([], Some (IndexError ''pop from empty list''))
                | (prev_packet2, prev_ts2) # hist2 \<Rightarrow>
                    (case prev_packet2 of
                       Packet p \<Rightarrow>
                         (case prev_ts2 of
                            None \<Rightarrow> ([], Some (TypeError ''NoneType + int''))
                          | Some t \<Rightarrow>
                              let start_ts = t + of_int (pkt_duration p);
                                  dur = curr_ts - start_ts;
                                  silent_packets = generate_silence_packets s start_ts dur
                              in yield_from silent_packets
                                   (yield_then (emit_current curr_packet curr_ts)
                                      (filling_gaps_loop s
                                         ((curr_packet, Some curr_ts) # hist2) rest)))
                     | _ \<Rightarrow> ([], Some (AttributeError ''duration''))))
          else yield_then (emit_current curr_packet curr_ts)
                 (filling_gaps_loop s
                    ((curr_packet, Some curr_ts) # (prev_packet, prev_ts) # hist1) rest))"

definition iterate_audio_packets_filling_gaps ::
  "audio_stream \<Rightarrow> audio_part list option \<Rightarrow> (packet \<times> rat) gen" where
  "iterate_audio_packets_filling_gaps s audio_parts =
     filling_gaps_loop s [(PyNone, None)] (iterate_audio_packets_with_part_marker s audio_parts)"

text \<open>
  \<open>iterate_audio_packets\<close>: the loop over the pairs of the chosen iterator, which ends
  with \<open>ending\<close>. A negative \<open>audio_ts\<close> executes \<open>return None\<close>, which ends the generator.
\<close>

fun assign_audio_pts ::
  "audio_stream \<Rightarrow> rat \<Rightarrow> ext_int \<Rightarrow> (packet \<times> rat) list \<Rightarrow> error option \<Rightarrow> packet gen" where
  "assign_audio_pts s start last_audio_pts [] ending = ([], ending)"
| "assign_audio_pts s start last_audio_pts ((p, raw_ts) # rest) ending =
     (let audio_ts = raw_ts - start
      in if a_time_base s = 0 then ([], Some ZeroDivisionError)
         else
           let audio_pts = next_pts (py_int (audio_ts / a_time_base s)) last_audio_pts;
               p1 = p\<lparr>pkt_pts := Some audio_pts, pkt_dts := Some audio_pts,
                      pkt_stream := AudioStream\<rparr>
           in if audio_ts < 0 then ([], None)
              else yield_then [p1]
                     (assign_audio_pts s start (Fin audio_pts) rest ending))"

definition iterate_audio_packets ::
  "audio_stream \<Rightarrow> rat \<Rightarrow> audio_part list option \<Rightarrow> bool \<Rightarrow> packet gen" where
  "iterate_audio_packets s start audio_parts fill_gaps =
     (let packet_with_ts_iterator =
            (if fill_gaps then iterate_audio_packets_filling_gaps s audio_parts
             else iterate_audio_packets_plain s audio_parts)
      in assign_audio_pts s start NegInf
           (fst packet_with_ts_iterator) (snd packet_with_ts_iterator))"

section \<open>MPEG_Audio_Writer\<close>

text \<open>
  The writer's own attributes on top of \<open>MPEG_Writer\<close>'s: the audio parts (\<open>None\<close> when
  no audio was loaded), the audio export stream, and the stateful packet iterator, a
  suspended generator: the packets it has still to yield and how it ends.
\<close>

record 'v mpeg_audio_state = "'v mpeg_state" +
  audio_parts :: "audio_part list option"
  audio_export_stream :: "audio_stream option"
  audio_packet_iterator :: "packet gen"

text \<open>
  The loop of \<open>encode_frame\<close> over the audio packet iterator: the packets yielded, the
  exception raised if any, and the iterator as it is left. An exhausted generator stays
  exhausted.
\<close>

fun drain_audio ::
  "rat \<Rightarrow> rat \<Rightarrow> packet list \<Rightarrow> error option \<Rightarrow> packet list \<times> error option \<times> packet gen" where
  "drain_audio atb frame_ts [] ending = ([], ending, ([], None))"
| "drain_audio atb frame_ts (audio_packet # rest) ending =
     (case pkt_pts audio_packet of
        None \<Rightarrow> ([], Some (TypeError ''NoneType * Fraction''), (rest, ending))
      | Some a \<Rightarrow>
          let audio_ts = of_int a * atb
          in if audio_ts > frame_ts then ([audio_packet], None, (rest, ending))
             else (case drain_audio atb frame_ts rest ending of
                     (ys, err, it) \<Rightarrow> (audio_packet # ys, err, it)))"

definition MPEG_Audio_encode_frame ::
  "rat \<Rightarrow> ('v \<Rightarrow> frame \<Rightarrow> int \<Rightarrow> packet list \<times> error option \<times> 'v) \<Rightarrow>
   'v mpeg_audio_state \<Rightarrow> frame \<Rightarrow> int \<Rightarrow> packet list \<times> error option \<times> 'v mpeg_audio_state" where
  "MPEG_Audio_encode_frame tb stream_encode e input_frame new_pts =
     (case MPEG_encode_frame stream_encode e input_frame new_pts of
        (video_packets, err, e1) \<Rightarrow>
          (case err of
             Some x \<Rightarrow> (video_packets, Some x, e1)
           | None \<Rightarrow>
               if audio_parts e1 = None then (video_packets, None, e1)
               else (case frame_pts e1 of
                       None \<Rightarrow> (video_packets, Some (TypeError ''NoneType * Fraction''), e1)
                     | Some fp \<Rightarrow>
                         (case audio_export_stream e1 of
                            None \<Rightarrow> (video_packets, Some (AttributeError ''audio_export_stream''), e1)
                          | Some s \<Rightarrow>
                              let frame_ts = of_int fp * tb
                              in (case drain_audio (a_time_base s) frame_ts
                                         (fst (audio_packet_iterator e1))
                                         (snd (audio_packet_iterator e1)) of
                                    (audio_packets, err2, it) \<Rightarrow>
                                      (video_packets @ audio_packets, err2,
                                       e1\<lparr>audio_packet_iterator := it\<rparr>))))))"

definition MPEG_Audio_Writer ::
  "rat \<Rightarrow> ('v \<Rightarrow> frame \<Rightarrow> int \<Rightarrow> packet list \<times> error option \<times> 'v) \<Rightarrow> ('v \<Rightarrow> packet list \<times> 'v) \<Rightarrow>
   'v mpeg_audio_state codec" where
  "MPEG_Audio_Writer tb stream_encode stream_flush =
     \<lparr>supported_extensions = [''.mp4'', ''.mov'', ''.mkv''],
      codec_name = ''mpeg4'',
      on_first_frame = MPEG_on_first_frame,
      encode_frame = MPEG_Audio_encode_frame tb stream_encode,
      encode_None = MPEG_encode_None stream_flush\<rparr>"

text \<open>
  The subclass state \<open>__init__\<close> builds from what \<open>audio_utils.load_audio\<close> returned
  (\<open>None\<close> for \<open>NoAudioLoadedError\<close>): the export stream is added from the first part's
  template stream, here \<open>template\<close>, and the packet iterator is set up with
  \<open>fill_gaps=True\<close>.
\<close>

definition MPEG_Audio_Writer_state ::
  "'v \<Rightarrow> rat \<Rightarrow> audio_part list option \<Rightarrow> audio_stream \<Rightarrow> error + 'v mpeg_audio_state" where
  "MPEG_Audio_Writer_state v0 start loaded template =
     (case loaded of
        None \<Rightarrow> Inr \<lparr>frame_pix_format = None, frame_pts = None, video_encoder = v0,
                     audio_parts = None, audio_export_stream = None,
                     audio_packet_iterator = ([], None)\<rparr>
      | Some parts \<Rightarrow>
          if parts = [] then Inl (IndexError ''list index out of range'')
          else Inr \<lparr>frame_pix_format = None, frame_pts = None, video_encoder = v0,
                    audio_parts = Some parts, audio_export_stream = Some template,
                    audio_packet_iterator = iterate_audio_packets template start (Some parts) True\<rparr>)"

section \<open>Sequences of calls\<close>

text \<open>
  A sequence of \<open>write_video_frame\<close> calls on one writer, stopped by the first call that
  raises.
\<close>

fun write_frames ::
  "'e codec \<Rightarrow> 'e av_writer \<Rightarrow> frame list \<Rightarrow> (error \<times> 'e av_writer) + 'e av_writer" where
  "write_frames c w [] = Inr w"
| "write_frames c w (f # fs) =
     (case write_video_frame c w f of
        Inl x \<Rightarrow> Inl x
      | Inr w' \<Rightarrow> write_frames c w' fs)"



text \<open>
  The audio drain as the specification words it: an audio packet exceeds the frame when
  its timestamp, \<open>pts\<close> times the audio stream's time base, is greater than the frame's
  timestamp; the packets due are those up to and including the first that exceeds it,
  and the rest is left for the next call.
\<close>

definition exceeds :: "rat \<Rightarrow> rat \<Rightarrow> packet \<Rightarrow> bool" where
  "exceeds atb frame_ts p =
     (case pkt_pts p of None \<Rightarrow> False | Some a \<Rightarrow> frame_ts < of_int a * atb)"

definition due_packets :: "rat \<Rightarrow> rat \<Rightarrow> packet list \<Rightarrow> packet list" where
  "due_packets atb frame_ts items =
     takeWhile (\<lambda>p. \<not> exceeds atb frame_ts p) items
     @ take 1 (dropWhile (\<lambda>p. \<not> exceeds atb frame_ts p) items)"

definition left_packets :: "rat \<Rightarrow> rat \<Rightarrow> packet list \<Rightarrow> packet list" where
  "left_packets atb frame_ts items =
     drop 1 (dropWhile (\<lambda>p. \<not> exceeds atb frame_ts p) items)"


section \<open>Properties of the writer's steps\<close>

lemma mux_packets_muxed: "muxed (snd (mux_packets ps b w)) = muxed w @ ps"
  by (induction ps arbitrary: b w) (simp_all add: Let_def logger_def)

lemma mux_packets_flag:
  "fst (mux_packets ps b w) = (b \<or> (\<exists>p\<in>set ps. pkt_stream p = VideoStream))"
  by (induction ps arbitrary: b w) (auto simp add: Let_def)

lemma mux_packets_keep:
  "timestamps (snd (mux_packets ps b w)) = timestamps w"
  "last_video_pts (snd (mux_packets ps b w)) = last_video_pts w"
  "start_time (snd (mux_packets ps b w)) = start_time w"
  "time_base (snd (mux_packets ps b w)) = time_base w"
  "closed_flag (snd (mux_packets ps b w)) = closed_flag w"
  "configured (snd (mux_packets ps b w)) = configured w"
  "container_closes (snd (mux_packets ps b w)) = container_closes w"
  "flushes (snd (mux_packets ps b w)) = flushes w"
  "exports (snd (mux_packets ps b w)) = exports w"
  "enc (snd (mux_packets ps b w)) = enc w"
  "stream_height (snd (mux_packets ps b w)) = stream_height w"
  "stream_width (snd (mux_packets ps b w)) = stream_width w"
  by (induction ps arbitrary: b w; simp add: Let_def logger_def)+

lemma mux_packets_no_video:
  "\<forall>p\<in>set ps. pkt_stream p \<noteq> VideoStream \<Longrightarrow>
   mux_packets ps False w = (False, w\<lparr>muxed := muxed w @ ps\<rparr>)"
  by (induction ps arbitrary: w) (simp_all add: Let_def)

lemma mux_packets_result:
  assumes "mux_packets ps b w = (b', w')"
  shows "timestamps w' = timestamps w" "last_video_pts w' = last_video_pts w"
    "start_time w' = start_time w" "time_base w' = time_base w"
    "closed_flag w' = closed_flag w" "configured w' = configured w"
    "muxed w' = muxed w @ ps"
    "b' = (b \<or> (\<exists>p\<in>set ps. pkt_stream p = VideoStream))"
  using mux_packets_keep [of ps b w] mux_packets_muxed [of ps b w] mux_packets_flag [of ps b w]
    assms by simp_all

lemma configure_fields:
  "timestamps (configure c w f) = timestamps w"
  "last_video_pts (configure c w f) = last_video_pts w"
  "start_time (configure c w f) = start_time w"
  "time_base (configure c w f) = time_base w"
  "closed_flag (configure c w f) = closed_flag w"
  "configured (configure c w f)"
  "muxed (configure c w f) = muxed w"
  "container_closes (configure c w f) = container_closes w"
  "flushes (configure c w f) = flushes w"
  "exports (configure c w f) = exports w"
  "log_lines (configure c w f) = log_lines w"
  by (simp_all add: configure_def)

lemma assigned_pts_configure: "assigned_pts (configure c w f) f' = assigned_pts w f'"
  by (simp add: assigned_pts_def configure_fields)

lemma release_open:
  assumes "\<not> closed_flag w" "configured w"
  shows "release c w =
    Inr (w\<lparr>muxed := muxed w @ fst (encode_None c (enc w)),
           flushes := flushes w + 1,
           enc := snd (encode_None c (enc w)),
           container_closes := container_closes w + 1,
           closed_flag := True,
           exports := exports w @ [Npy_file (timestamps w)],
           log_lines := log_lines w\<rparr>)"
  using assms
  by (simp add: release_def close_def write_timestamps_def Let_def split: prod.splits)

lemma write_video_frame_closed:
  "closed_flag w \<Longrightarrow> write_video_frame c w f = Inr (logger Warning_container_closed_already w)"
  by (simp add: write_video_frame_def)

lemma write_video_frame_before_start:
  "\<not> closed_flag w \<Longrightarrow> timestamp f < start_time w \<Longrightarrow>
   write_video_frame c w f = Inr (logger Debug_skipping_frame_before_sync (configure c w f))"
  by (simp add: write_video_frame_def Let_def configure_fields)

lemma write_video_frame_non_monotonic:
  "\<not> closed_flag w \<Longrightarrow> start_time w \<le> timestamp f \<Longrightarrow> timestamps w \<noteq> [] \<Longrightarrow>
   timestamp f < last (timestamps w) \<Longrightarrow>
   write_video_frame c w f =
     (case release c (configure c w f) of
        Inl (e, w2) \<Rightarrow> Inl (e, w2)
      | Inr w2 \<Rightarrow> Inl (ValueError ''Non-monotonic timestamps!'', w2))"
  by (simp add: write_video_frame_def Let_def configure_fields)

lemma write_video_frame_encode:
  "\<not> closed_flag w \<Longrightarrow> start_time w \<le> timestamp f \<Longrightarrow>
   timestamps w = [] \<or> last (timestamps w) \<le> timestamp f \<Longrightarrow>
   write_video_frame c w f =
     (case encode_frame c (enc (configure c w f)) f (assigned_pts w f) of
        (pkts, err, e') \<Rightarrow>
          (case mux_packets pkts False ((configure c w f)\<lparr>enc := e'\<rparr>) of
             (video_packed_encoded, w2) \<Rightarrow>
               (case err of
                  Some e \<Rightarrow> Inl (e, w2)
                | None \<Rightarrow>
                    if \<not> video_packed_encoded
                    then Inr (logger (Warning_encoding_failed (index f)) w2)
                    else Inr (w2\<lparr>last_video_pts := Fin (assigned_pts w f),
                                timestamps := timestamps w2 @ [timestamp f]\<rparr>))))"
  by (auto simp add: write_video_frame_def Let_def configure_fields assigned_pts_configure)

lemma write_video_frame_Inr:
  assumes "write_video_frame c w f = Inr w'"
  shows "start_time w' = start_time w \<and> time_base w' = time_base w \<and>
         closed_flag w' = closed_flag w \<and>
         ((timestamps w' = timestamps w \<and> last_video_pts w' = last_video_pts w) \<or>
          (\<not> closed_flag w \<and> start_time w \<le> timestamp f \<and>
           (timestamps w = [] \<or> last (timestamps w) \<le> timestamp f) \<and>
           timestamps w' = timestamps w @ [timestamp f] \<and>
           last_video_pts w' = Fin (assigned_pts w f)))"
proof (cases "closed_flag w")
  case True
  with assms show ?thesis by (auto simp: write_video_frame_closed logger_def)
next
  case opn: False
  show ?thesis
  proof (cases "timestamp f < start_time w")
    case True
    with opn assms show ?thesis
      by (auto simp: write_video_frame_before_start logger_def configure_fields)
  next
    case late: False
    show ?thesis
    proof (cases "timestamps w \<noteq> [] \<and> timestamp f < last (timestamps w)")
      case True
      with opn late assms show ?thesis
        by (auto simp: write_video_frame_non_monotonic split: sum.splits)
    next
      case False
      then have ok: "timestamps w = [] \<or> last (timestamps w) \<le> timestamp f" by auto
      obtain pkts err e' where enc: "encode_frame c (enc (configure c w f)) f (assigned_pts w f) = (pkts, err, e')"
        by (cases "encode_frame c (enc (configure c w f)) f (assigned_pts w f)") auto
      obtain b w2 where mux: "mux_packets pkts False ((configure c w f)\<lparr>enc := e'\<rparr>) = (b, w2)"
        by (cases "mux_packets pkts False ((configure c w f)\<lparr>enc := e'\<rparr>)") auto
      note r = mux_packets_result [OF mux]
      from opn late ok assms enc mux show ?thesis
        by (auto simp: write_video_frame_encode r configure_fields logger_def
            split: option.splits if_splits)
    qed
  qed
qed

section \<open>The PTS sequence of accepted frames\<close>

lemma floor_rat_numeral_div:
  "\<lfloor>numeral a / numeral b :: rat\<rfloor> = numeral a div numeral b"
  using floor_divide_of_int_eq [of "numeral a" "numeral b", where ?'a = rat] by simp






lemma JPEG_fields:
  "encode_frame (JPEG_Writer fl) = (\<lambda>e input_frame new_pts.
         ([\<lparr>pkt_stream = VideoStream, pkt_pts = Some new_pts, pkt_dts = Some new_pts,
            pkt_duration = 0, pkt_payload = jpeg_buffer input_frame\<rparr>], None, e))"
  "on_first_frame (JPEG_Writer fl) = (\<lambda>input_frame e. e\<lparr>pix_fmt := Some ''yuvj422p''\<rparr>)"
  "encode_None (JPEG_Writer fl) = fl"
  "supported_extensions (JPEG_Writer fl) = [''.mp4'']"
  by (simp_all add: JPEG_Writer_def)



section \<open>The timestamp ledger\<close>

lemma sorted_le_last: "sorted xs \<Longrightarrow> y \<in> set xs \<Longrightarrow> y \<le> (last xs :: rat)"
proof (induction xs)
  case Nil
  then show ?case by simp
next
  case (Cons a xs)
  show ?case
  proof (cases "xs = []")
    case True
    with Cons.prems show ?thesis by simp
  next
    case False
    then have l: "last (a # xs) = last xs" and m: "last xs \<in> set xs" by simp_all
    from Cons.prems(1) have s: "sorted xs" and a: "\<forall>z\<in>set xs. a \<le> z" by simp_all
    show ?thesis
    proof (cases "y = a")
      case True
      with a m l show ?thesis by simp
    next
      case False
      with Cons.prems(2) have "y \<in> set xs" by simp
      from Cons.IH [OF s this] l show ?thesis by simp
    qed
  qed
qed

lemma sorted_snoc_last:
  assumes "sorted xs" and "xs = [] \<or> last xs \<le> (x::rat)"
  shows "sorted (xs @ [x])"
proof -
  have "y \<le> x" if "y \<in> set xs" for y
  proof -
    from that have "xs \<noteq> []" by auto
    with assms(2) have "last xs \<le> x" by simp
    with sorted_le_last [OF assms(1) that] show ?thesis by simp
  qed
  with assms(1) show ?thesis by (simp add: sorted_append)
qed

lemma write_video_frame_ledger:
  assumes "write_video_frame c w f = Inr w'"
    and "sorted (timestamps w)" and "\<forall>t\<in>set (timestamps w). start_time w \<le> t"
  shows "sorted (timestamps w') \<and> (\<forall>t\<in>set (timestamps w'). start_time w' \<le> t)"
proof -
  from write_video_frame_Inr [OF assms(1)]
  have st: "start_time w' = start_time w"
    and cases: "(timestamps w' = timestamps w \<and> last_video_pts w' = last_video_pts w) \<or>
          (\<not> closed_flag w \<and> start_time w \<le> timestamp f \<and>
           (timestamps w = [] \<or> last (timestamps w) \<le> timestamp f) \<and>
           timestamps w' = timestamps w @ [timestamp f] \<and>
           last_video_pts w' = Fin (assigned_pts w f))" by simp_all
  from cases show ?thesis
  proof
    assume "timestamps w' = timestamps w \<and> last_video_pts w' = last_video_pts w"
    with assms(2,3) st show ?thesis by simp
  next
    assume a: "\<not> closed_flag w \<and> start_time w \<le> timestamp f \<and>
           (timestamps w = [] \<or> last (timestamps w) \<le> timestamp f) \<and>
           timestamps w' = timestamps w @ [timestamp f] \<and>
           last_video_pts w' = Fin (assigned_pts w f)"
    then have "sorted (timestamps w')"
      using sorted_snoc_last [OF assms(2), of "timestamp f"] by simp
    moreover from a assms(3) st have "\<forall>t\<in>set (timestamps w'). start_time w' \<le> t" by simp
    ultimately show ?thesis by simp
  qed
qed

lemma write_frames_ledger:
  "write_frames c w fs = Inr w' \<Longrightarrow> sorted (timestamps w) \<Longrightarrow>
   \<forall>t\<in>set (timestamps w). start_time w \<le> t \<Longrightarrow>
   sorted (timestamps w') \<and> (\<forall>t\<in>set (timestamps w'). start_time w' \<le> t) \<and>
   start_time w' = start_time w"
proof (induction fs arbitrary: w)
  case Nil
  then show ?case by simp
next
  case (Cons f fs)
  from Cons.prems(1) obtain w1 where w1: "write_video_frame c w f = Inr w1"
    and rest: "write_frames c w1 fs = Inr w'"
    by (cases "write_video_frame c w f") simp_all
  from write_video_frame_ledger [OF w1 Cons.prems(2,3)]
  have a: "sorted (timestamps w1)" and b: "\<forall>t\<in>set (timestamps w1). start_time w1 \<le> t"
    by simp_all
  from write_video_frame_Inr [OF w1] have "start_time w1 = start_time w" by simp
  with Cons.IH [OF rest a b] show ?case by auto
qed

text \<open>
  Claim C7, as amended. After every sequence of \<open>write_video_frame\<close> calls on a new writer
  that does not raise, the timestamp ledger is non-decreasing: no entry is less than its
  predecessor, and every entry is at least \<open>start_time\<close>. Equal neighbours are possible:
  the check before a frame is accepted is \<open>ts < last_ts\<close>.
\<close>

theorem ledger_non_decreasing:
  assumes "write_frames c (AV_Writer_init c path ext start_time_synced e0 video) fs = Inr w'"
  shows "sorted (timestamps w') \<and> (\<forall>t\<in>set (timestamps w'). start_time_synced \<le> t)"
proof -
  let ?w = "AV_Writer_init c path ext start_time_synced e0 video"
  have a: "sorted (timestamps ?w)" and b: "\<forall>t\<in>set (timestamps ?w). start_time ?w \<le> t"
    and s: "start_time ?w = start_time_synced"
    by (simp_all add: AV_Writer_init_def)
  from write_frames_ledger [OF assms a b] s show ?thesis by auto
qed

theorem ledger_non_decreasing_witness:
  "sorted (timestamps (projr
     (write_frames (JPEG_Writer (Pair []))
        (AV_Writer_init (JPEG_Writer (Pair [])) ''world.mp4'' ''.mp4'' 0
           \<lparr>pix_fmt = None\<rparr> None)
        [\<lparr>width = 4, height = 2, timestamp = 1, index = 0, yuv_buffer = None,
           img = [], jpeg_buffer = [1]\<rparr>,
         \<lparr>width = 4, height = 2, timestamp = 1, index = 1, yuv_buffer = None,
           img = [], jpeg_buffer = [2]\<rparr>])))"
proof -
  let ?c = "JPEG_Writer (Pair [])"
  let ?fs = "[\<lparr>width = 4, height = 2, timestamp = 1, index = 0, yuv_buffer = None,
           img = [], jpeg_buffer = [1]\<rparr>,
         \<lparr>width = 4, height = 2, timestamp = 1, index = 1, yuv_buffer = None,
           img = [], jpeg_buffer = [2]\<rparr>]"
  have run: "write_frames ?c (AV_Writer_init ?c ''world.mp4'' ''.mp4'' 0 \<lparr>pix_fmt = None\<rparr> None) ?fs =
      Inr (projr (write_frames ?c
        (AV_Writer_init ?c ''world.mp4'' ''.mp4'' 0 \<lparr>pix_fmt = None\<rparr> None) ?fs))"
    by (simp add: AV_Writer_init_def write_video_frame_def configure_def assigned_pts_def
        JPEG_fields Let_def py_int_def floor_rat_numeral_div logger_def)
  from ledger_non_decreasing [OF run] show ?thesis by blast
qed

text \<open>
  Two frames with the same timestamp are both accepted, and the ledger holds the timestamp
  twice: it is not strictly increasing.
\<close>

theorem ledger_equal_entries:
  "\<not> isl (write_frames (JPEG_Writer (Pair []))
        (AV_Writer_init (JPEG_Writer (Pair [])) ''world.mp4'' ''.mp4'' 0
           \<lparr>pix_fmt = None\<rparr> None)
        [\<lparr>width = 4, height = 2, timestamp = 1, index = 0, yuv_buffer = None,
           img = [], jpeg_buffer = [1]\<rparr>,
         \<lparr>width = 4, height = 2, timestamp = 1, index = 1, yuv_buffer = None,
           img = [], jpeg_buffer = [2]\<rparr>]) \<and>
   timestamps (projr
     (write_frames (JPEG_Writer (Pair []))
        (AV_Writer_init (JPEG_Writer (Pair [])) ''world.mp4'' ''.mp4'' 0
           \<lparr>pix_fmt = None\<rparr> None)
        [\<lparr>width = 4, height = 2, timestamp = 1, index = 0, yuv_buffer = None,
           img = [], jpeg_buffer = [1]\<rparr>,
         \<lparr>width = 4, height = 2, timestamp = 1, index = 1, yuv_buffer = None,
           img = [], jpeg_buffer = [2]\<rparr>])) = [1, 1]"
  by (simp add: AV_Writer_init_def write_video_frame_def configure_def assigned_pts_def
        JPEG_fields Let_def py_int_def floor_rat_numeral_div logger_def)

section \<open>Rejected and dropped frames\<close>

text \<open>
  Claim C2, as amended. If an open writer receives a frame whose timestamp is at least
  \<open>start_time\<close> and strictly less than the timestamp of the previously accepted frame, it
  first closes the session (the encoder is flushed, the container closed, the closed flag
  set, the packets muxed before kept, and the ledger exported unchanged) and then raises
  \<open>ValueError\<close>.
\<close>

theorem non_monotonic_timestamp_closes_and_raises:
  assumes "\<not> closed_flag w" and "start_time w \<le> timestamp f"
    and "timestamps w \<noteq> []" and "timestamp f < last (timestamps w)"
  shows "\<exists>w'. write_video_frame c w f = Inl (ValueError ''Non-monotonic timestamps!'', w') \<and>
           closed_flag w' \<and>
           container_closes w' = container_closes w + 1 \<and>
           flushes w' = flushes w + 1 \<and>
           muxed w' = muxed w @ fst (encode_None c (enc (configure c w f))) \<and>
           timestamps w' = timestamps w \<and>
           last_video_pts w' = last_video_pts w \<and>
           exports w' = exports w @ [Npy_file (timestamps w)]"
proof -
  let ?w1 = "configure c w f"
  have o: "\<not> closed_flag ?w1" and cf: "configured ?w1"
    using assms(1) by (simp_all add: configure_fields)
  show ?thesis
    unfolding write_video_frame_non_monotonic [OF assms] release_open [OF o cf]
    by (simp add: configure_fields)
qed

theorem non_monotonic_timestamp_closes_and_raises_witness:
  "fst (projl (write_video_frame (JPEG_Writer (Pair []))
     (projr (write_video_frame (JPEG_Writer (Pair []))
        (AV_Writer_init (JPEG_Writer (Pair [])) ''world.mp4'' ''.mp4'' 0
           \<lparr>pix_fmt = None\<rparr> None)
        \<lparr>width = 4, height = 2, timestamp = 2, index = 0, yuv_buffer = None,
           img = [], jpeg_buffer = [1]\<rparr>))
     \<lparr>width = 4, height = 2, timestamp = 1, index = 1, yuv_buffer = None,
           img = [], jpeg_buffer = [2]\<rparr>)) = ValueError ''Non-monotonic timestamps!'' \<and>
   closed_flag (snd (projl (write_video_frame (JPEG_Writer (Pair []))
     (projr (write_video_frame (JPEG_Writer (Pair []))
        (AV_Writer_init (JPEG_Writer (Pair [])) ''world.mp4'' ''.mp4'' 0
           \<lparr>pix_fmt = None\<rparr> None)
        \<lparr>width = 4, height = 2, timestamp = 2, index = 0, yuv_buffer = None,
           img = [], jpeg_buffer = [1]\<rparr>))
     \<lparr>width = 4, height = 2, timestamp = 1, index = 1, yuv_buffer = None,
           img = [], jpeg_buffer = [2]\<rparr>)))"
proof -
  let ?c = "JPEG_Writer (Pair [])"
  let ?w = "(projr (write_video_frame (JPEG_Writer (Pair []))
        (AV_Writer_init (JPEG_Writer (Pair [])) ''world.mp4'' ''.mp4'' 0
           \<lparr>pix_fmt = None\<rparr> None)
        \<lparr>width = 4, height = 2, timestamp = 2, index = 0, yuv_buffer = None,
           img = [], jpeg_buffer = [1]\<rparr>))"
  let ?f = "\<lparr>width = 4, height = 2, timestamp = 1, index = 1, yuv_buffer = None,
           img = [], jpeg_buffer = [2]\<rparr>"
  have h1: "\<not> closed_flag ?w" and h2: "start_time ?w \<le> timestamp ?f"
    and h3: "timestamps ?w \<noteq> []" and h4: "timestamp ?f < last (timestamps ?w)"
    by (simp_all add: AV_Writer_init_def write_video_frame_def configure_def assigned_pts_def
        JPEG_fields Let_def py_int_def floor_rat_numeral_div logger_def)
  from non_monotonic_timestamp_closes_and_raises [OF h1 h2 h3 h4, of ?c]
  obtain w' where "write_video_frame ?c ?w ?f = Inl (ValueError ''Non-monotonic timestamps!'', w')"
    and "closed_flag w'" by blast
  then show ?thesis by simp
qed

text \<open>
  A frame earlier than \<open>start_time\<close> is also earlier than the previously accepted frame,
  and it is skipped before the monotonicity check: the call returns, and the writer stays
  open.
\<close>

theorem earlier_frame_before_start_is_skipped:
  "\<not> isl (write_frames (JPEG_Writer (Pair []))
        (AV_Writer_init (JPEG_Writer (Pair [])) ''world.mp4'' ''.mp4'' 100
           \<lparr>pix_fmt = None\<rparr> None)
        [\<lparr>width = 4, height = 2, timestamp = 201 / 2, index = 0, yuv_buffer = None,
           img = [], jpeg_buffer = [1]\<rparr>,
         \<lparr>width = 4, height = 2, timestamp = 99, index = 1, yuv_buffer = None,
           img = [], jpeg_buffer = [2]\<rparr>]) \<and>
   \<not> closed_flag (projr
     (write_frames (JPEG_Writer (Pair []))
        (AV_Writer_init (JPEG_Writer (Pair [])) ''world.mp4'' ''.mp4'' 100
           \<lparr>pix_fmt = None\<rparr> None)
        [\<lparr>width = 4, height = 2, timestamp = 201 / 2, index = 0, yuv_buffer = None,
           img = [], jpeg_buffer = [1]\<rparr>,
         \<lparr>width = 4, height = 2, timestamp = 99, index = 1, yuv_buffer = None,
           img = [], jpeg_buffer = [2]\<rparr>])) \<and>
   timestamps (projr
     (write_frames (JPEG_Writer (Pair []))
        (AV_Writer_init (JPEG_Writer (Pair [])) ''world.mp4'' ''.mp4'' 100
           \<lparr>pix_fmt = None\<rparr> None)
        [\<lparr>width = 4, height = 2, timestamp = 201 / 2, index = 0, yuv_buffer = None,
           img = [], jpeg_buffer = [1]\<rparr>,
         \<lparr>width = 4, height = 2, timestamp = 99, index = 1, yuv_buffer = None,
           img = [], jpeg_buffer = [2]\<rparr>])) = [201 / 2]"
  by (simp add: AV_Writer_init_def write_video_frame_def configure_def assigned_pts_def
        JPEG_fields Let_def py_int_def floor_rat_numeral_div logger_def)

text \<open>
  Claim C8. When \<open>encode_frame\<close> is reached for a frame and yields no packet of the video
  stream, \<open>write_video_frame\<close> drops the frame with the warning "Encoding frame ... failed!"
  and leaves \<open>last_video_pts\<close> and the timestamp ledger unchanged; the packets of other
  streams it yielded are muxed.
\<close>

theorem zero_video_packets_drops_frame:
  assumes "\<not> closed_flag w" and "start_time w \<le> timestamp f"
    and "timestamps w = [] \<or> last (timestamps w) \<le> timestamp f"
    and "encode_frame c (enc (configure c w f)) f (assigned_pts w f) = (pkts, None, e')"
    and "\<forall>p\<in>set pkts. pkt_stream p \<noteq> VideoStream"
  shows "\<exists>w'. write_video_frame c w f = Inr w' \<and>
           last_video_pts w' = last_video_pts w \<and>
           timestamps w' = timestamps w \<and>
           muxed w' = muxed w @ pkts \<and>
           log_lines w' = log_lines w @ [Warning_encoding_failed (index f)]"
  unfolding write_video_frame_encode [OF assms(1,2,3)]
  by (simp add: assms(4) mux_packets_no_video [OF assms(5)] logger_def configure_fields)

theorem zero_video_packets_drops_frame_witness:
  "last_video_pts (projr
    (write_video_frame (MPEG_Writer (\<lambda>v input_frame new_pts. ([], None, v)) (Pair []))
     (AV_Writer_init (MPEG_Writer (\<lambda>v input_frame new_pts. ([], None, v)) (Pair [])) ''world.mp4'' ''.mp4'' 0
        \<lparr>frame_pix_format = None, frame_pts = None, video_encoder = ()\<rparr> None)
     \<lparr>width = 4, height = 2, timestamp = 1, index = 0, yuv_buffer = None,
           img = [], jpeg_buffer = [1]\<rparr>)) = NegInf \<and>
   timestamps (projr
    (write_video_frame (MPEG_Writer (\<lambda>v input_frame new_pts. ([], None, v)) (Pair []))
     (AV_Writer_init (MPEG_Writer (\<lambda>v input_frame new_pts. ([], None, v)) (Pair [])) ''world.mp4'' ''.mp4'' 0
        \<lparr>frame_pix_format = None, frame_pts = None, video_encoder = ()\<rparr> None)
     \<lparr>width = 4, height = 2, timestamp = 1, index = 0, yuv_buffer = None,
           img = [], jpeg_buffer = [1]\<rparr>)) = []"
proof -
  let ?c = "(MPEG_Writer (\<lambda>v input_frame new_pts. ([], None, v)) (Pair []))"
  let ?w = "(AV_Writer_init (MPEG_Writer (\<lambda>v input_frame new_pts. ([], None, v)) (Pair [])) ''world.mp4'' ''.mp4'' 0
        \<lparr>frame_pix_format = None, frame_pts = None, video_encoder = ()\<rparr> None)"
  let ?f = "\<lparr>width = 4, height = 2, timestamp = 1, index = 0, yuv_buffer = None,
           img = [], jpeg_buffer = [1]\<rparr>"
  have h1: "\<not> closed_flag ?w" and h2: "start_time ?w \<le> timestamp ?f"
    and h3: "timestamps ?w = [] \<or> last (timestamps ?w) \<le> timestamp ?f"
    and l: "last_video_pts ?w = NegInf" and t: "timestamps ?w = []"
    by (simp_all add: AV_Writer_init_def)
  have h4: "encode_frame ?c (enc (configure ?c ?w ?f)) ?f (assigned_pts ?w ?f) =
      ([], None, \<lparr>frame_pix_format = Some ''bgr24'', frame_pts = Some 65535,
                   video_encoder = ()\<rparr>)"
    by (simp add: AV_Writer_init_def configure_def assigned_pts_def MPEG_Writer_def
        MPEG_encode_frame_def MPEG_on_first_frame_def py_int_def)
  have h5: "\<forall>p\<in>set []. pkt_stream p \<noteq> VideoStream" by simp
  from zero_video_packets_drops_frame [OF h1 h2 h3 h4 h5]
  obtain w' where "write_video_frame ?c ?w ?f = Inr w'"
    and "last_video_pts w' = last_video_pts ?w" and "timestamps w' = timestamps ?w" by blast
  with l t show ?thesis by simp
qed

section \<open>close\<close>

lemma close_sets_closed:
  assumes "close c w fmt = Inr w' \<or> close c w fmt = Inl (e, w')"
  shows "closed_flag w'"
  using assms
  by (auto simp: close_def logger_def Let_def split: if_splits option.splits prod.splits)

text \<open>
  Claim C9. \<open>close\<close> is idempotent: once \<open>close\<close> has run (whether it returned or raised
  out of the timestamp export), a further call returns with the warning "Trying to close
  container multiple times!" added to the log and nothing else changed: no second flush,
  no second \<open>container.close()\<close>, no further muxed packet and no further export.
\<close>

theorem close_is_idempotent:
  assumes "close c w fmt = Inr w1 \<or> close c w fmt = Inl (e, w1)"
  shows "close c w1 fmt2 = Inr (w1\<lparr>log_lines := log_lines w1 @ [Warning_close_multiple_times]\<rparr>) \<and>
         flushes (projr (close c w1 fmt2)) = flushes w1 \<and>
         container_closes (projr (close c w1 fmt2)) = container_closes w1 \<and>
         muxed (projr (close c w1 fmt2)) = muxed w1 \<and>
         exports (projr (close c w1 fmt2)) = exports w1"
proof -
  from close_sets_closed [OF assms] have "closed_flag w1" .
  then show ?thesis by (simp add: close_def logger_def)
qed

theorem close_is_idempotent_witness:
  "exports (projr (close (JPEG_Writer (Pair []))
     (projr (close (JPEG_Writer (Pair []))
        (projr (write_video_frame (JPEG_Writer (Pair []))
        (AV_Writer_init (JPEG_Writer (Pair [])) ''world.mp4'' ''.mp4'' 0
           \<lparr>pix_fmt = None\<rparr> None)
        \<lparr>width = 4, height = 2, timestamp = 2, index = 0, yuv_buffer = None,
           img = [], jpeg_buffer = [1]\<rparr>)) (Some ''npy''))) (Some ''all''))) = [Npy_file [2]] \<and>
   container_closes (projr (close (JPEG_Writer (Pair []))
     (projr (close (JPEG_Writer (Pair []))
        (projr (write_video_frame (JPEG_Writer (Pair []))
        (AV_Writer_init (JPEG_Writer (Pair [])) ''world.mp4'' ''.mp4'' 0
           \<lparr>pix_fmt = None\<rparr> None)
        \<lparr>width = 4, height = 2, timestamp = 2, index = 0, yuv_buffer = None,
           img = [], jpeg_buffer = [1]\<rparr>)) (Some ''npy''))) (Some ''all''))) = 1"
proof -
  let ?c = "JPEG_Writer (Pair [])"
  let ?w = "(projr (write_video_frame (JPEG_Writer (Pair []))
        (AV_Writer_init (JPEG_Writer (Pair [])) ''world.mp4'' ''.mp4'' 0
           \<lparr>pix_fmt = None\<rparr> None)
        \<lparr>width = 4, height = 2, timestamp = 2, index = 0, yuv_buffer = None,
           img = [], jpeg_buffer = [1]\<rparr>))"
  have run: "close ?c ?w (Some ''npy'') = Inr (projr (close ?c ?w (Some ''npy''))) \<or>
      close ?c ?w (Some ''npy'') = Inl (ZeroDivisionError, projr (close ?c ?w (Some ''npy'')))"
    by (simp add: close_def write_timestamps_def AV_Writer_init_def write_video_frame_def configure_def assigned_pts_def
        JPEG_fields Let_def py_int_def floor_rat_numeral_div logger_def)
  have e: "exports (projr (close ?c ?w (Some ''npy''))) = [Npy_file [2]]"
    and n: "container_closes (projr (close ?c ?w (Some ''npy''))) = 1"
    by (simp_all add: close_def write_timestamps_def AV_Writer_init_def write_video_frame_def configure_def assigned_pts_def
        JPEG_fields Let_def py_int_def floor_rat_numeral_div logger_def)
  from close_is_idempotent [OF run, of "Some ''all''"] e n show ?thesis by simp
qed

section \<open>The first frame\<close>

text \<open>
  Claim C10. If the first frame passed to an open, not yet configured writer has a timestamp
  earlier than \<open>start_time\<close>, the writer still runs the one-time configuration (the video
  stream's height and width are set, \<open>on_first_frame\<close> runs, \<open>configured\<close> becomes true) and
  then skips the frame: nothing is muxed, \<open>last_video_pts\<close> and the ledger stay as they are.
\<close>

theorem first_frame_before_start_configures:
  assumes "\<not> closed_flag w" and "\<not> configured w" and "timestamp f < start_time w"
  shows "\<exists>w'. write_video_frame c w f = Inr w' \<and>
           configured w' \<and>
           stream_height w' = Some (height f) \<and>
           stream_width w' = Some (width f) \<and>
           enc w' = on_first_frame c f (enc w) \<and>
           muxed w' = muxed w \<and>
           last_video_pts w' = last_video_pts w \<and>
           timestamps w' = timestamps w \<and>
           log_lines w' = log_lines w @ [Debug_skipping_frame_before_sync]"
  using assms
  by (simp add: write_video_frame_before_start configure_def logger_def)

theorem first_frame_before_start_configures_witness:
  "configured (projr
     (write_video_frame (JPEG_Writer (Pair []))
      (AV_Writer_init (JPEG_Writer (Pair [])) ''world.mp4'' ''.mp4'' 100
           \<lparr>pix_fmt = None\<rparr> None)
      \<lparr>width = 4, height = 2, timestamp = 99, index = 0, yuv_buffer = None,
           img = [], jpeg_buffer = [1]\<rparr>)) \<and>
   enc (projr
     (write_video_frame (JPEG_Writer (Pair []))
      (AV_Writer_init (JPEG_Writer (Pair [])) ''world.mp4'' ''.mp4'' 100
           \<lparr>pix_fmt = None\<rparr> None)
      \<lparr>width = 4, height = 2, timestamp = 99, index = 0, yuv_buffer = None,
           img = [], jpeg_buffer = [1]\<rparr>)) = \<lparr>pix_fmt = Some ''yuvj422p''\<rparr> \<and>
   muxed (projr
     (write_video_frame (JPEG_Writer (Pair []))
      (AV_Writer_init (JPEG_Writer (Pair [])) ''world.mp4'' ''.mp4'' 100
           \<lparr>pix_fmt = None\<rparr> None)
      \<lparr>width = 4, height = 2, timestamp = 99, index = 0, yuv_buffer = None,
           img = [], jpeg_buffer = [1]\<rparr>)) = []"
proof -
  let ?c = "JPEG_Writer (Pair [])"
  let ?w = "(AV_Writer_init (JPEG_Writer (Pair [])) ''world.mp4'' ''.mp4'' 100
           \<lparr>pix_fmt = None\<rparr> None)"
  let ?f = "\<lparr>width = 4, height = 2, timestamp = 99, index = 0, yuv_buffer = None,
           img = [], jpeg_buffer = [1]\<rparr>"
  have h1: "\<not> closed_flag ?w" and h2: "\<not> configured ?w"
    and h3: "timestamp ?f < start_time ?w"
    and m: "muxed ?w = []" and e: "on_first_frame ?c ?f (enc ?w) = \<lparr>pix_fmt = Some ''yuvj422p''\<rparr>"
    by (simp_all add: AV_Writer_init_def JPEG_fields)
  from first_frame_before_start_configures [OF h1 h2 h3, of ?c]
  obtain w' where "write_video_frame ?c ?w ?f = Inr w'" and "configured w'"
    and "enc w' = on_first_frame ?c ?f (enc ?w)" and "muxed w' = muxed ?w" by blast
  with m e show ?thesis by simp
qed

section \<open>The audio drain of encode_frame\<close>

lemma yield_then_simps:
  "yield_then [] g = g"
  "fst (yield_then xs g) = xs @ fst g"
  "snd (yield_then xs g) = snd g"
  "yield_then xs (ys, e) = (xs @ ys, e)"
  by (simp_all add: yield_then_def)


lemma drain_audio_eq:
  assumes "\<forall>p\<in>set items. pkt_pts p \<noteq> None"
  shows "drain_audio atb frame_ts items ending =
    (due_packets atb frame_ts items,
     (if \<exists>p\<in>set items. exceeds atb frame_ts p then None else ending),
     (left_packets atb frame_ts items,
      if \<exists>p\<in>set items. exceeds atb frame_ts p then ending else None))"
  using assms
proof (induction items)
  case Nil
  show ?case by (simp add: due_packets_def left_packets_def)
next
  case (Cons p ps)
  from Cons.prems obtain a where a: "pkt_pts p = Some a" by auto
  from Cons.prems have "\<forall>q\<in>set ps. pkt_pts q \<noteq> None" by simp
  note IH = Cons.IH [OF this]
  show ?case
  proof (cases "of_int a * atb > frame_ts")
    case True
    with a show ?thesis by (simp add: due_packets_def left_packets_def exceeds_def)
  next
    case False
    with a IH show ?thesis by (simp add: due_packets_def left_packets_def exceeds_def)
  qed
qed

lemma assign_audio_pts_some:
  "\<forall>q\<in>set (fst (assign_audio_pts s start l xs ending)). pkt_pts q \<noteq> None"
proof (induction xs arbitrary: l)
  case Nil
  show ?case by simp
next
  case (Cons x xs)
  obtain p raw_ts where x: "x = (p, raw_ts)" by (cases x) auto
  show ?case unfolding x using Cons.IH
    by (simp add: Let_def yield_then_simps)
qed

text \<open>Every packet the audio packet iterator yields carries a PTS.\<close>

lemma iterate_audio_packets_some:
  "\<forall>q\<in>set (fst (iterate_audio_packets s start parts fill)). pkt_pts q \<noteq> None"
  unfolding iterate_audio_packets_def Let_def by (rule assign_audio_pts_some)

text \<open>
  Claim C3. With an audio stream configured, \<open>encode_frame\<close> yields the video packets of
  the frame and then the audio packets of the stateful iterator in order, up to and
  including the first whose timestamp (\<open>pts\<close> times the audio stream's time base) exceeds
  the frame's timestamp (its PTS times the writer's time base); the iterator is left at
  the packet after it, where the next call resumes. When no packet exceeds the frame's
  timestamp the iterator is drained, and it ends as the generator ends.
\<close>

theorem encode_frame_drains_audio:
  assumes "stream_encode (video_encoder e) input_frame new_pts = (video_packets, None, v')"
    and "audio_parts e = Some parts"
    and "audio_export_stream e = Some s"
    and "audio_packet_iterator e = (items, ending)"
    and "\<forall>p\<in>set items. pkt_pts p \<noteq> None"
  shows "MPEG_Audio_encode_frame tb stream_encode e input_frame new_pts =
    (video_packets @ due_packets (a_time_base s) (of_int new_pts * tb) items,
     (if \<exists>p\<in>set items. exceeds (a_time_base s) (of_int new_pts * tb) p
      then None else ending),
     e\<lparr>frame_pts := Some new_pts, video_encoder := v',
       audio_packet_iterator :=
         (left_packets (a_time_base s) (of_int new_pts * tb) items,
          if \<exists>p\<in>set items. exceeds (a_time_base s) (of_int new_pts * tb) p
          then ending else None)\<rparr>)"
  using assms(1-4)
  by (simp add: MPEG_Audio_encode_frame_def MPEG_encode_frame_def Let_def
      drain_audio_eq [OF assms(5)])

theorem encode_frame_drains_audio_witness:
  "map pkt_pts (fst (MPEG_Audio_encode_frame (1 / 65535)
      (\<lambda>v input_frame new_pts. ([\<lparr>pkt_stream = VideoStream, pkt_pts = Some new_pts,
        pkt_dts = Some new_pts, pkt_duration = 0, pkt_payload = img input_frame\<rparr>], None, v))
      (projr (MPEG_Audio_Writer_state () 0
        (Some [\<lparr>part_frames = [Decoded 1, Decoded 2, Decoded 3], part_timestamps = [1, 2, 3]\<rparr>])
        \<lparr>a_time_base = 1 / 1000, sample_rate = 1000, frame_size = 400,
        format_name = ''s16'', layout_name = ''mono'',
        encode = (\<lambda>fr. [\<lparr>pkt_stream = AudioStream, pkt_pts = None, pkt_dts = None,
                           pkt_duration = 1,
                           pkt_payload = (case fr of Decoded k \<Rightarrow> [k]
                                          | Silence c f l r \<Rightarrow> [])\<rparr>]),
        truth = (\<lambda>p. True)\<rparr>))
      \<lparr>width = 4, height = 2, timestamp = 3 / 2, index = 0, yuv_buffer = None,
        img = [7], jpeg_buffer = []\<rparr> 98302)) = [Some 98302, Some 1000, Some 2000] \<and>
   map pkt_pts (fst (audio_packet_iterator (snd (snd (MPEG_Audio_encode_frame (1 / 65535)
      (\<lambda>v input_frame new_pts. ([\<lparr>pkt_stream = VideoStream, pkt_pts = Some new_pts,
        pkt_dts = Some new_pts, pkt_duration = 0, pkt_payload = img input_frame\<rparr>], None, v))
      (projr (MPEG_Audio_Writer_state () 0
        (Some [\<lparr>part_frames = [Decoded 1, Decoded 2, Decoded 3], part_timestamps = [1, 2, 3]\<rparr>])
        \<lparr>a_time_base = 1 / 1000, sample_rate = 1000, frame_size = 400,
        format_name = ''s16'', layout_name = ''mono'',
        encode = (\<lambda>fr. [\<lparr>pkt_stream = AudioStream, pkt_pts = None, pkt_dts = None,
                           pkt_duration = 1,
                           pkt_payload = (case fr of Decoded k \<Rightarrow> [k]
                                          | Silence c f l r \<Rightarrow> [])\<rparr>]),
        truth = (\<lambda>p. True)\<rparr>))
      \<lparr>width = 4, height = 2, timestamp = 3 / 2, index = 0, yuv_buffer = None,
        img = [7], jpeg_buffer = []\<rparr> 98302))))) = [Some 3000]"
proof -
  let ?s = "\<lparr>a_time_base = 1 / 1000, sample_rate = 1000, frame_size = 400,
        format_name = ''s16'', layout_name = ''mono'',
        encode = (\<lambda>fr. [\<lparr>pkt_stream = AudioStream, pkt_pts = None, pkt_dts = None,
                           pkt_duration = 1,
                           pkt_payload = (case fr of Decoded k \<Rightarrow> [k]
                                          | Silence c f l r \<Rightarrow> [])\<rparr>]),
        truth = (\<lambda>p. True)\<rparr>"
  let ?part = "\<lparr>part_frames = [Decoded 1, Decoded 2, Decoded 3], part_timestamps = [1, 2, 3]\<rparr>"
  let ?e = "projr (MPEG_Audio_Writer_state () 0 (Some [?part]) ?s)"
  let ?f = "\<lparr>width = 4, height = 2, timestamp = 3 / 2, index = 0, yuv_buffer = None,
        img = [7], jpeg_buffer = []\<rparr>"
  let ?enc = "(\<lambda>v input_frame new_pts. ([\<lparr>pkt_stream = VideoStream, pkt_pts = Some new_pts,
        pkt_dts = Some new_pts, pkt_duration = 0, pkt_payload = img input_frame\<rparr>], None, v))"
  let ?items = "[\<lparr>pkt_stream = AudioStream, pkt_pts = Some 1000, pkt_dts = Some 1000,
       pkt_duration = 1, pkt_payload = [1]\<rparr>,
      \<lparr>pkt_stream = AudioStream, pkt_pts = Some 2000, pkt_dts = Some 2000,
       pkt_duration = 1, pkt_payload = [2]\<rparr>,
      \<lparr>pkt_stream = AudioStream, pkt_pts = Some 3000, pkt_dts = Some 3000,
       pkt_duration = 1, pkt_payload = [3]\<rparr>]"
  have it: "iterate_audio_packets ?s 0 (Some [?part]) True = (?items, None)"
    by (simp add: iterate_audio_packets_def iterate_audio_packets_filling_gaps_def
      iterate_audio_packets_with_part_marker_def part_packets_def encode_with_ts_def
      emit_current_def yield_then_def Let_def py_int_def)
  have h1: "?enc (video_encoder ?e) ?f 98302 =
      ([\<lparr>pkt_stream = VideoStream, pkt_pts = Some 98302, pkt_dts = Some 98302,
         pkt_duration = 0, pkt_payload = [7]\<rparr>], None, ())"
    by simp
  have h2: "audio_parts ?e = Some [?part]" and h3: "audio_export_stream ?e = Some ?s"
    by (simp_all add: MPEG_Audio_Writer_state_def)
  have h4: "audio_packet_iterator ?e = (?items, None)"
    using it by (simp add: MPEG_Audio_Writer_state_def)
  have h5: "\<forall>p\<in>set ?items. pkt_pts p \<noteq> None" by simp
  show ?thesis
    unfolding encode_frame_drains_audio [where stream_encode = "?enc" and e = "?e"
        and input_frame = "?f" and new_pts = 98302 and tb = "1 / 65535",
        OF h1 h2 h3 h4 h5]
    by (simp add: due_packets_def left_packets_def exceeds_def)
qed

section \<open>Silence at a segment boundary\<close>











section \<open>The first segment\<close>






section \<open>Audio packets before the start time\<close>

text \<open>
  Claim C6 fails on the code. A recording that starts at 10 with audio packets at 9, 11
  and 12: the packet at 9 has a negative relative timestamp, \<open>return None\<close> ends the
  generator there, and the packets at 11 and 12 are never yielded.
\<close>

theorem negative_audio_timestamp_ends_iteration:
  "iterate_audio_packets
      \<lparr>a_time_base = 1 / 1000, sample_rate = 1000, frame_size = 400,
        format_name = ''s16'', layout_name = ''mono'',
        encode = (\<lambda>fr. [\<lparr>pkt_stream = AudioStream, pkt_pts = None, pkt_dts = None,
                           pkt_duration = 1,
                           pkt_payload = (case fr of Decoded k \<Rightarrow> [k]
                                          | Silence c f l r \<Rightarrow> [])\<rparr>]),
        truth = (\<lambda>p. True)\<rparr> 10
      (Some [\<lparr>part_frames = [Decoded 1, Decoded 2, Decoded 3], part_timestamps = [9, 11, 12]\<rparr>]) True = ([], None)"
  by (simp add: iterate_audio_packets_def iterate_audio_packets_filling_gaps_def
      iterate_audio_packets_with_part_marker_def part_packets_def encode_with_ts_def
      emit_current_def yield_then_def Let_def py_int_def)

end
